theory Spec2Isabelle
  imports Main "HOL-Library.Word" "HOL-Library.Sublist"
begin

section \<open>Kubernetes test functions (kubernetes-test-functions/main.go)\<close>

text \<open>
  The package is a set of check functions for integration tests. Each one reads an object
  (through the API client, or from its arguments), compares one field with an expectation
  and calls \<open>t.Logf\<close> or \<open>t.Errorf\<close> on the test handle; some of them \<open>panic\<close>.

  The embedding passes the test handle explicitly and returns it updated, together with
  the way the call ended (\<open>Return\<close> or \<open>Panic\<close>). A panic keeps
  whatever the handle held when it was raised.
\<close>

subsection \<open>The test handle (\<open>*testing.T\<close>)\<close>

text \<open>
  The two reporting calls the package makes. \<open>Errorf\<close> is \<open>Logf\<close> followed by
  \<open>Fail\<close>: it records the message and marks the test as failed.
\<close>

datatype report = Logf (message: string) | Errorf (message: string)

record testing_T =
  reports :: "report list"
  failed :: bool

definition t_Logf :: "testing_T \<Rightarrow> string \<Rightarrow> testing_T" where
  "t_Logf t msg = t\<lparr>reports := reports t @ [Logf msg]\<rparr>"

definition t_Errorf :: "testing_T \<Rightarrow> string \<Rightarrow> testing_T" where
  "t_Errorf t msg = t\<lparr>reports := reports t @ [Errorf msg], failed := True\<rparr>"

text \<open>The reports a call added to the handle: those of \<open>t'\<close> after the ones \<open>t\<close> held.\<close>

definition emitted :: "testing_T \<Rightarrow> testing_T \<Rightarrow> report list" where
  "emitted t t' = drop (length (reports t)) (reports t')"

fun is_success :: "report list \<Rightarrow> bool" where
  "is_success [Logf m] = True"
| "is_success rs = False"

fun is_failure :: "report list \<Rightarrow> bool" where
  "is_failure [Errorf m] = True"
| "is_failure rs = False"

subsection \<open>Errors and panics\<close>

text \<open>
  A Go \<open>error\<close> is represented by the text its \<open>Error()\<close> method returns. The source
  panics with that text (\<open>panic(err.Error())\<close>); indexing a slice out of range is a
  run-time panic of the language.
\<close>

datatype go_error = GoError (Error: string)

datatype panic_value = PanicString string | IndexOutOfRange nat nat

datatype exit = Return | Panic panic_value

type_synonym result = "exit \<times> testing_T"

subsection \<open>Formatting with \<open>%v\<close>\<close>

text \<open>
  Every format string of the source uses the verb \<open>%v\<close> only, on strings (printed as
  they are) and on integers (printed in decimal, with a minus sign when negative). Go's
  \<open>int\<close> is only compared and printed by the source, never computed with, so it is an
  integer here.
\<close>

text \<open>The character \<open>'\<close>, which a string literal cannot end with.\<close>

abbreviation (input) apostrophe :: string where
  "apostrophe \<equiv> [CHR 0x27]"

fun fmt_nat :: "nat \<Rightarrow> string" where
  "fmt_nat n = (if n < 10 then [''0123456789'' ! n]
                else fmt_nat (n div 10) @ [''0123456789'' ! (n mod 10)])"

declare fmt_nat.simps [simp del]

definition fmt_int :: "int \<Rightarrow> string" where
  "fmt_int i = (if i < 0 then ''-'' @ fmt_nat (nat (- i)) else fmt_nat (nat i))"

text \<open>Go's \<open>int32\<close> is a 32-bit word read as a signed number.\<close>

type_synonym int32 = "32 word"

definition fmt_int32 :: "int32 \<Rightarrow> string" where
  "fmt_int32 w = fmt_int (sint w)"

subsection \<open>The objects of the API\<close>

text \<open>
  The fields the source reads are kept, and the conditions of a deployment, which callers
  hand to \<open>ConditionStatusMet\<close>. The string types of the API (condition type, condition
  status, namespace phase) are strings. \<open>Time\<close> is an instant, counted in nanoseconds;
  \<open>Before\<close> is the strict order of instants (the source calls it on two non-nil times).
\<close>

type_synonym Time = int

definition Before :: "Time \<Rightarrow> Time \<Rightarrow> bool" where
  "Before t u = (t < u)"

record ObjectMeta =
  Name :: string
  CreationTimestamp :: Time

record DeploymentCondition =
  Type :: string
  Status :: string

record Deployment = ObjectMeta +
  Conditions :: "DeploymentCondition list"

record DeploymentList =
  Items :: "Deployment list"

record NamespaceStatus =
  Phase :: string

record Namespace = ObjectMeta +
  Namespace_Status :: NamespaceStatus

subsection \<open>The API client (\<open>*kubernetes.Clientset\<close>)\<close>

text \<open>
  The client is outside the package. Each call the source makes is a field: given the
  namespace (for namespaced kinds) and the name, it answers with an error or an object.
\<close>

record Clientset =
  Deployments_List :: "string \<Rightarrow> go_error + DeploymentList"
  Deployments_Get :: "string \<Rightarrow> string \<Rightarrow> go_error + Deployment"
  Namespaces_Get :: "string \<Rightarrow> go_error + Namespace"
  ServiceAccounts_Get :: "string \<Rightarrow> string \<Rightarrow> go_error + ObjectMeta"
  Roles_Get :: "string \<Rightarrow> string \<Rightarrow> go_error + ObjectMeta"
  RoleBindings_Get :: "string \<Rightarrow> string \<Rightarrow> go_error + ObjectMeta"
  ClusterRoles_Get :: "string \<Rightarrow> go_error + ObjectMeta"
  ClusterRoleBindings_Get :: "string \<Rightarrow> go_error + ObjectMeta"

subsection \<open>The check functions\<close>

definition ExpectedDeploymentCount ::
  "testing_T \<Rightarrow> Clientset \<Rightarrow> string \<Rightarrow> int \<Rightarrow> result" where
  "ExpectedDeploymentCount t clientset namespace expectedCount =
     (case Deployments_List clientset namespace of
        Inl err \<Rightarrow> (Panic (PanicString (Error err)), t)
      | Inr deployments \<Rightarrow>
          (let actualCount = int (length (Items deployments)) in
           if actualCount = expectedCount then
             (Return, t_Logf t
                (''The expected number of Deployments exist in the '' @ apostrophe @ namespace
                 @ apostrophe @ '' namespace.  Expected '' @ fmt_int expectedCount
                 @ '', got '' @ fmt_int actualCount @ ''.''))
           else
             (Return, t_Errorf t
                (''An unexpected number of Deployments exist in the '' @ apostrophe @ namespace
                 @ apostrophe @ '' namespace.  Expected '' @ fmt_int expectedCount
                 @ '', got '' @ fmt_int actualCount @ ''.''))))"

definition DeploymentExists ::
  "testing_T \<Rightarrow> Clientset \<Rightarrow> string \<Rightarrow> string \<Rightarrow> result" where
  "DeploymentExists t clientset name namespace =
     (case Deployments_Get clientset namespace name of
        Inl err \<Rightarrow> (Panic (PanicString (Error err)), t)
      | Inr deployment \<Rightarrow>
          (let actualName = Name deployment in
           if actualName = name then
             (Return, t_Logf t
                (''Jenkins Deployment exists with the expected name.  Expected '' @ name
                 @ '', got '' @ actualName @ ''.''))
           else
             (Return, t_Errorf t
                (''Jenkins Deployment does not exist with the expected name.  Expected '' @ name
                 @ '', got '' @ actualName @ ''.''))))"

text \<open>
  A Go map read \<open>annotations[name]\<close> gives the zero value of the element type, the empty
  string, when the key is absent (also on a nil map).
\<close>

definition map_index :: "(string \<rightharpoonup> string) \<Rightarrow> string \<Rightarrow> string" where
  "map_index annotations name = (case annotations name of None \<Rightarrow> [] | Some v \<Rightarrow> v)"

definition AnnotationsEqual ::
  "testing_T \<Rightarrow> (string \<rightharpoonup> string) \<Rightarrow> string \<Rightarrow> string \<Rightarrow> result" where
  "AnnotationsEqual t annotations name expectedValue =
     (let value = map_index annotations name in
      if expectedValue = value then
        (Return, t_Logf t
           (''Annotation '' @ name @ '' exists with its expected value.  Expected ''
            @ expectedValue @ '', got '' @ value @ ''.''))
      else
        (Return, t_Errorf t
           (''Annotation '' @ name @ '' does not exist with its expected value.  Expected ''
            @ expectedValue @ '', got '' @ value @ ''.'')))"

text \<open>
  The regular-expression package (\<open>regexp\<close>) is outside the repository: the check takes
  it as a parameter, the two functions it calls.
\<close>

record 're regexp_pkg =
  Compile :: "string \<Rightarrow> go_error + 're"
  MatchString :: "'re \<Rightarrow> string \<Rightarrow> bool"

definition AnnotationsMatchPattern ::
  "'re regexp_pkg \<Rightarrow> testing_T \<Rightarrow> (string \<rightharpoonup> string) \<Rightarrow> string \<Rightarrow> string \<Rightarrow> result" where
  "AnnotationsMatchPattern regexp t annotations name expectedPattern =
     (let value = map_index annotations name in
      case Compile regexp expectedPattern of
        Inl err \<Rightarrow> (Panic (PanicString (Error err)), t)
      | Inr pattern \<Rightarrow>
          if MatchString regexp pattern value then
            (Return, t_Logf t
               (''Annotation '' @ name @ '' exists and matches its expected pattern.  Expected ''
                @ expectedPattern @ '', got '' @ value @ ''.''))
          else
            (Return, t_Errorf t
               (''Annotation '' @ name
                @ '' does not exist and match its expected pattern.  Expected ''
                @ expectedPattern @ '', got '' @ value @ ''.'')))"

text \<open>
  The loop of \<open>ConditionStatusMet\<close>: it appends to \<open>matches\<close> every condition of the
  requested type, in order.
\<close>

fun range_conditions ::
  "DeploymentCondition list \<Rightarrow> string \<Rightarrow> DeploymentCondition list \<Rightarrow> DeploymentCondition list"
where
  "range_conditions [] conditionType matches = matches"
| "range_conditions (condition # rest) conditionType matches =
     range_conditions rest conditionType
       (if Type condition = conditionType then matches @ [condition] else matches)"

text \<open>\<open>matches[0]\<close> on an empty slice is a run-time panic (index 0, length 0).\<close>

definition ConditionStatusMet ::
  "testing_T \<Rightarrow> DeploymentCondition list \<Rightarrow> string \<Rightarrow> string \<Rightarrow> result" where
  "ConditionStatusMet t conditions conditionType expectedStatus =
     (let matches = range_conditions conditions conditionType [] in
      case matches of
        [] \<Rightarrow> (Panic (IndexOutOfRange 0 0), t)
      | first # others \<Rightarrow>
          (let status = Status first in
           if status = expectedStatus then
             (Return, t_Logf t
                (''Deployment condition type '' @ conditionType
                 @ '' has its expected status.  Expected '' @ expectedStatus
                 @ '', got '' @ status @ ''.''))
           else
             (Return, t_Errorf t
                (''Deployment condition type '' @ conditionType
                 @ '' does not have its expected status.  Expected '' @ expectedStatus
                 @ '', got '' @ status @ ''.''))))"

definition ReplicaCountAsExpected ::
  "testing_T \<Rightarrow> int32 \<Rightarrow> int32 \<Rightarrow> string \<Rightarrow> result" where
  "ReplicaCountAsExpected t expectedReplicas actualReplicas description =
     (if expectedReplicas = actualReplicas then
        (Return, t_Logf t
           (''Jenkins Deployment has expected '' @ description @ ''.  Expected ''
            @ fmt_int32 expectedReplicas @ '', got '' @ fmt_int32 actualReplicas @ ''.''))
      else
        (Return, t_Errorf t
           (''Jenkins Deployment has unexpected '' @ description @ ''.  Expected ''
            @ fmt_int32 expectedReplicas @ '', got '' @ fmt_int32 actualReplicas @ ''.'')))"

definition NamespaceExists :: "testing_T \<Rightarrow> Clientset \<Rightarrow> string \<Rightarrow> result" where
  "NamespaceExists t clientset name =
     (case Namespaces_Get clientset name of
        Inl err \<Rightarrow> (Panic (PanicString (Error err)), t)
      | Inr namespace \<Rightarrow>
          (let status = ''Active'' in
           if Phase (Namespace_Status namespace) = status then
             (Return, t_Logf t (''Cluster has a namespace named '' @ name @ ''.''))
           else
             (Return, t_Errorf t
                (''Cluster does not have a namespace named '' @ name @ ''.''))))"

text \<open>
  The five checks below read the clock (\<open>v1meta.Now()\<close>) after the fetch; the reading
  is the parameter \<open>now\<close>.
\<close>

definition ServiceAccountExists ::
  "testing_T \<Rightarrow> Clientset \<Rightarrow> Time \<Rightarrow> string \<Rightarrow> string \<Rightarrow> result" where
  "ServiceAccountExists t clientset now name namespace =
     (case ServiceAccounts_Get clientset namespace name of
        Inl err \<Rightarrow> (Panic (PanicString (Error err)), t)
      | Inr serviceAccount \<Rightarrow>
          if Before (CreationTimestamp serviceAccount) now then
            (Return, t_Logf t
               (''A ServiceAccount named '' @ apostrophe @ name @ apostrophe
                @ '' exists in the '' @ apostrophe @ namespace @ apostrophe
                @ '' namespace.''))
          else
            (Return, t_Errorf t
               (''A ServiceAccount named '' @ apostrophe @ name @ apostrophe
                @ '' does not exist in the '' @ apostrophe @ namespace @ apostrophe
                @ '' namespace.'')))"

definition RoleExists ::
  "testing_T \<Rightarrow> Clientset \<Rightarrow> Time \<Rightarrow> string \<Rightarrow> string \<Rightarrow> result" where
  "RoleExists t clientset now name namespace =
     (case Roles_Get clientset namespace name of
        Inl err \<Rightarrow> (Panic (PanicString (Error err)), t)
      | Inr role \<Rightarrow>
          if Before (CreationTimestamp role) now then
            (Return, t_Logf t
               (''A Role named '' @ apostrophe @ name @ apostrophe
                @ '' exists in the '' @ apostrophe @ namespace @ apostrophe
                @ '' namespace.''))
          else
            (Return, t_Errorf t
               (''A Role named '' @ apostrophe @ name @ apostrophe
                @ '' does not exist in the '' @ apostrophe @ namespace @ apostrophe
                @ '' namespace.'')))"

definition RoleBindingExists ::
  "testing_T \<Rightarrow> Clientset \<Rightarrow> Time \<Rightarrow> string \<Rightarrow> string \<Rightarrow> result" where
  "RoleBindingExists t clientset now name namespace =
     (case RoleBindings_Get clientset namespace name of
        Inl err \<Rightarrow> (Panic (PanicString (Error err)), t)
      | Inr role \<Rightarrow>
          if Before (CreationTimestamp role) now then
            (Return, t_Logf t
               (''A RoleBinding object named '' @ apostrophe @ name @ apostrophe
                @ '' exists in the '' @ apostrophe @ namespace @ apostrophe
                @ '' namespace.''))
          else
            (Return, t_Errorf t
               (''A RoleBinding object named '' @ apostrophe @ name @ apostrophe
                @ '' does not exist in the '' @ apostrophe @ namespace @ apostrophe
                @ '' namespace.'')))"

definition ClusterRoleExists ::
  "testing_T \<Rightarrow> Clientset \<Rightarrow> Time \<Rightarrow> string \<Rightarrow> result" where
  "ClusterRoleExists t clientset now name =
     (case ClusterRoles_Get clientset name of
        Inl err \<Rightarrow> (Panic (PanicString (Error err)), t)
      | Inr role \<Rightarrow>
          if Before (CreationTimestamp role) now then
            (Return, t_Logf t
               (''A ClusterRole named '' @ apostrophe @ name @ apostrophe @ '' exists.''))
          else
            (Return, t_Errorf t
               (''A ClusterRole named '' @ apostrophe @ name @ apostrophe
                @ '' does not exist.'')))"

definition ClusterRoleBindingExists ::
  "testing_T \<Rightarrow> Clientset \<Rightarrow> Time \<Rightarrow> string \<Rightarrow> result" where
  "ClusterRoleBindingExists t clientset now name =
     (case ClusterRoleBindings_Get clientset name of
        Inl err \<Rightarrow> (Panic (PanicString (Error err)), t)
      | Inr role \<Rightarrow>
          if Before (CreationTimestamp role) now then
            (Return, t_Logf t
               (''A ClusterRoleBinding object named '' @ apostrophe @ name @ apostrophe
                @ '' exists.''))
          else
            (Return, t_Errorf t
               (''A ClusterRoleBinding object named '' @ apostrophe @ name @ apostrophe
                @ '' does not exist.'')))"

subsection \<open>A model of the regular-expression package\<close>

text \<open>
  The package behind \<open>regexp.Compile\<close> and \<open>MatchString\<close> is not part of the
  repository. Where a property holds for any package, the check is stated over the parameter
  \<open>regexp\<close>. The model below fixes the package on the patterns that are free of syntax:
  ASCII characters none of which is a metacharacter (the backslash and
  \<open>. + * ? ( ) | [ ] { } ^ $\<close>).
\<close>

definition meta_characters :: string where
  "meta_characters = CHR 0x5C # ''.+*?()|[]{}^$''"

definition is_plain :: "string \<Rightarrow> bool" where
  "is_plain expr = list_all (\<lambda>c. (of_char c :: nat) < 128 \<and> c \<notin> set meta_characters) expr"

datatype 'x Regexp = Literal string | Other 'x

text \<open>
  Modelled from the spec: the regular-expression compiler and matcher that
  \<open>AnnotationsMatchPattern\<close> calls are missing from the source. The spec describes a
  compiled pattern that is matched against the value as an unanchored substring match, and a
  compilation that fails on invalid syntax. A pattern free of syntax always compiles, to its
  own text, and matches a value exactly when that text occurs somewhere in it; the empty
  pattern is one of them. Every other pattern is left to the parameter \<open>rest\<close>.
\<close>

definition go_regexp :: "'x regexp_pkg \<Rightarrow> 'x Regexp regexp_pkg" where
  "go_regexp rest =
     \<lparr>Compile = (\<lambda>expr. if is_plain expr then Inr (Literal expr)
                         else (case Compile rest expr of
                                 Inl err \<Rightarrow> Inl err
                               | Inr x \<Rightarrow> Inr (Other x))),
      MatchString = (\<lambda>re s. case re of
                               Literal text \<Rightarrow> sublist text s
                             | Other x \<Rightarrow> MatchString rest x s)\<rparr>"

subsection \<open>What a call is observed to do\<close>

text \<open>
  A call \<^emph>\<open>reports success\<close> when it returns having added exactly one \<open>Logf\<close> record to
  the handle, \<^emph>\<open>reports failure\<close> when it returns having added exactly one \<open>Errorf\<close>
  record, and \<^emph>\<open>aborts\<close> when it panics having added no record.
\<close>

definition reports_success :: "testing_T \<Rightarrow> result \<Rightarrow> bool" where
  "reports_success t r \<longleftrightarrow> fst r = Return \<and> is_success (emitted t (snd r))"

definition reports_failure :: "testing_T \<Rightarrow> result \<Rightarrow> bool" where
  "reports_failure t r \<longleftrightarrow> fst r = Return \<and> is_failure (emitted t (snd r))"

definition aborts :: "testing_T \<Rightarrow> result \<Rightarrow> panic_value \<Rightarrow> bool" where
  "aborts t r p \<longleftrightarrow> fst r = Panic p \<and> emitted t (snd r) = []"

text \<open>The call added exactly one record, and its message contains the text \<open>s\<close>.\<close>

definition report_contains :: "testing_T \<Rightarrow> result \<Rightarrow> string \<Rightarrow> bool" where
  "report_contains t r s \<longleftrightarrow>
     (case emitted t (snd r) of [x] \<Rightarrow> sublist s (message x) | _ \<Rightarrow> False)"

text \<open>
  One record when the call returns (a success or a failure, not both), none when it panics.
\<close>

definition one_record_iff_returns :: "testing_T \<Rightarrow> result \<Rightarrow> bool" where
  "one_record_iff_returns t r \<longleftrightarrow>
     (case fst r of
        Return \<Rightarrow> length (emitted t (snd r)) = 1
                  \<and> (is_success (emitted t (snd r)) \<noteq> is_failure (emitted t (snd r)))
      | Panic p \<Rightarrow> emitted t (snd r) = [])"

subsection \<open>Sample inputs\<close>

definition fresh_T :: testing_T where
  "fresh_T = \<lparr>reports = [], failed = False\<rparr>"

text \<open>A client whose every call fails.\<close>

definition unreachable_clientset :: Clientset where
  "unreachable_clientset =
     \<lparr>Deployments_List = (\<lambda>namespace. Inl (GoError ''connection refused'')),
      Deployments_Get = (\<lambda>namespace name. Inl (GoError ''connection refused'')),
      Namespaces_Get = (\<lambda>name. Inl (GoError ''connection refused'')),
      ServiceAccounts_Get = (\<lambda>namespace name. Inl (GoError ''connection refused'')),
      Roles_Get = (\<lambda>namespace name. Inl (GoError ''connection refused'')),
      RoleBindings_Get = (\<lambda>namespace name. Inl (GoError ''connection refused'')),
      ClusterRoles_Get = (\<lambda>name. Inl (GoError ''connection refused'')),
      ClusterRoleBindings_Get = (\<lambda>name. Inl (GoError ''connection refused''))\<rparr>"

text \<open>
  A cluster with three deployments in every namespace, the namespace \<open>prod\<close> active and
  every other one terminating, and access-control objects created at instant 1000.
\<close>

definition sample_deployment :: "string \<Rightarrow> Deployment" where
  "sample_deployment name =
     \<lparr>Name = name, CreationTimestamp = 1000,
      Conditions = [\<lparr>Type = ''Progressing'', Status = ''True''\<rparr>,
                    \<lparr>Type = ''Available'', Status = ''False''\<rparr>]\<rparr>"

definition sample_clientset :: Clientset where
  "sample_clientset =
     \<lparr>Deployments_List = (\<lambda>namespace. Inr \<lparr>Items =
         [sample_deployment ''jenkins'', sample_deployment ''web'', sample_deployment ''db'']\<rparr>),
      Deployments_Get = (\<lambda>namespace name. Inr (sample_deployment name)),
      Namespaces_Get = (\<lambda>name. Inr \<lparr>Name = name, CreationTimestamp = 1000,
         Namespace_Status =
           \<lparr>Phase = (if name = ''prod'' then ''Active'' else ''Terminating'')\<rparr>\<rparr>),
      ServiceAccounts_Get = (\<lambda>namespace name. Inr \<lparr>Name = name, CreationTimestamp = 1000\<rparr>),
      Roles_Get = (\<lambda>namespace name. Inr \<lparr>Name = name, CreationTimestamp = 1000\<rparr>),
      RoleBindings_Get = (\<lambda>namespace name. Inr \<lparr>Name = name, CreationTimestamp = 1000\<rparr>),
      ClusterRoles_Get = (\<lambda>name. Inr \<lparr>Name = name, CreationTimestamp = 1000\<rparr>),
      ClusterRoleBindings_Get = (\<lambda>name. Inr \<lparr>Name = name, CreationTimestamp = 1000\<rparr>)\<rparr>"

text \<open>A package that rejects every pattern; \<open>go_regexp\<close> is applied to it in the examples.\<close>

definition no_regexp :: "unit regexp_pkg" where
  "no_regexp =
     \<lparr>Compile = (\<lambda>expr. Inl (GoError (''error parsing regexp: '' @ expr))),
      MatchString = (\<lambda>re s. False)\<rparr>"

section \<open>Properties\<close>

subsection \<open>Reading the handle\<close>

lemma emitted_same [simp]: "emitted t t = []"
  by (simp add: emitted_def)

lemma emitted_Logf [simp]: "emitted t (t_Logf t msg) = [Logf msg]"
  by (simp add: emitted_def t_Logf_def)

lemma emitted_Errorf [simp]: "emitted t (t_Errorf t msg) = [Errorf msg]"
  by (simp add: emitted_def t_Errorf_def)

lemma aborts_panic [simp]: "aborts t (Panic p, t) q \<longleftrightarrow> p = q"
  by (simp add: aborts_def)

lemma aborts_return [simp]: "\<not> aborts t (Return, t') q"
  by (simp add: aborts_def)

lemma reports_success_simps [simp]:
  "reports_success t (Return, t_Logf t msg)"
  "\<not> reports_success t (Return, t_Errorf t msg)"
  "\<not> reports_success t (Panic p, t')"
  by (simp_all add: reports_success_def)

lemma reports_failure_simps [simp]:
  "reports_failure t (Return, t_Errorf t msg)"
  "\<not> reports_failure t (Return, t_Logf t msg)"
  "\<not> reports_failure t (Panic p, t')"
  by (simp_all add: reports_failure_def)

lemma report_contains_simps [simp]:
  "report_contains t (e, t_Logf t msg) s \<longleftrightarrow> sublist s msg"
  "report_contains t (e, t_Errorf t msg) s \<longleftrightarrow> sublist s msg"
  "\<not> report_contains t (e, t) s"
  by (simp_all add: report_contains_def)

lemma one_record_iff_returns_simps [simp]:
  "one_record_iff_returns t (Return, t_Logf t msg)"
  "one_record_iff_returns t (Return, t_Errorf t msg)"
  "one_record_iff_returns t (Panic p, t)"
  by (simp_all add: one_record_iff_returns_def)

subsection \<open>Auxiliary facts\<close>

lemma sublist_between: "msg = ps @ xs @ ss \<Longrightarrow> sublist xs msg"
  by (auto simp: sublist_def)

lemma sublist_past: "sublist xs ys \<Longrightarrow> sublist xs (zs @ ys)"
  by (metis append_assoc sublist_def)

text \<open>The loop of \<open>ConditionStatusMet\<close> is a filter.\<close>

lemma range_conditions_filter:
  "range_conditions conditions ty matches = matches @ filter (\<lambda>c. Type c = ty) conditions"
  by (induction conditions arbitrary: matches) simp_all

lemmas check_defs =
  ExpectedDeploymentCount_def DeploymentExists_def AnnotationsEqual_def
  AnnotationsMatchPattern_def ConditionStatusMet_def ReplicaCountAsExpected_def
  NamespaceExists_def ServiceAccountExists_def RoleExists_def RoleBindingExists_def
  ClusterRoleExists_def ClusterRoleBindingExists_def

lemma count_message_contains:
  "sublist (''Expected '' @ e @ '', got '' @ a)
     (intro @ apostrophe @ namespace @ apostrophe @ '' namespace.  Expected '' @ e
        @ '', got '' @ a @ ''.'')"
  by (rule sublist_between
      [where ps = "intro @ apostrophe @ namespace @ apostrophe @ '' namespace.  ''"
         and ss = "''.''"]) simp

lemma replica_message_contains:
  "sublist (''Expected '' @ e @ '', got '' @ a)
     (intro @ description @ ''.  Expected '' @ e @ '', got '' @ a @ ''.'')"
  by (rule sublist_between [where ps = "intro @ description @ ''.  ''" and ss = "''.''"]) simp

subsection \<open>A failed fetch\<close>

text \<open>
  C1. Each of the eight check functions that fetch through the API client (deployment
  count, deployment existence, namespace, service account, role, role binding, cluster
  role, cluster role binding), when the fetch returns an error, panics with the text of
  that error and makes no report call: no record is added to the test handle.
\<close>

theorem fetch_error_aborts_without_report:
  "(Deployments_List clientset namespace = Inl err \<longrightarrow>
      aborts t (ExpectedDeploymentCount t clientset namespace expectedCount)
        (PanicString (Error err)))
   \<and> (Deployments_Get clientset namespace name = Inl err \<longrightarrow>
      aborts t (DeploymentExists t clientset name namespace) (PanicString (Error err)))
   \<and> (Namespaces_Get clientset name = Inl err \<longrightarrow>
      aborts t (NamespaceExists t clientset name) (PanicString (Error err)))
   \<and> (ServiceAccounts_Get clientset namespace name = Inl err \<longrightarrow>
      aborts t (ServiceAccountExists t clientset now name namespace) (PanicString (Error err)))
   \<and> (Roles_Get clientset namespace name = Inl err \<longrightarrow>
      aborts t (RoleExists t clientset now name namespace) (PanicString (Error err)))
   \<and> (RoleBindings_Get clientset namespace name = Inl err \<longrightarrow>
      aborts t (RoleBindingExists t clientset now name namespace) (PanicString (Error err)))
   \<and> (ClusterRoles_Get clientset name = Inl err \<longrightarrow>
      aborts t (ClusterRoleExists t clientset now name) (PanicString (Error err)))
   \<and> (ClusterRoleBindings_Get clientset name = Inl err \<longrightarrow>
      aborts t (ClusterRoleBindingExists t clientset now name) (PanicString (Error err)))"
  by (simp add: ExpectedDeploymentCount_def DeploymentExists_def NamespaceExists_def
      ServiceAccountExists_def RoleExists_def RoleBindingExists_def ClusterRoleExists_def
      ClusterRoleBindingExists_def)

text \<open>With a client that cannot reach the cluster, all eight abort on a fresh handle.\<close>

theorem fetch_error_aborts_without_report_witness:
  "Deployments_List unreachable_clientset ''prod'' = Inl (GoError ''connection refused'')
   \<and> aborts fresh_T (ExpectedDeploymentCount fresh_T unreachable_clientset ''prod'' 3)
     (PanicString ''connection refused'')
   \<and> aborts fresh_T (DeploymentExists fresh_T unreachable_clientset ''jenkins'' ''prod'')
     (PanicString ''connection refused'')
   \<and> aborts fresh_T (NamespaceExists fresh_T unreachable_clientset ''jenkins'')
     (PanicString ''connection refused'')
   \<and> aborts fresh_T (ServiceAccountExists fresh_T unreachable_clientset 2000 ''jenkins'' ''prod'')
     (PanicString ''connection refused'')
   \<and> aborts fresh_T (RoleExists fresh_T unreachable_clientset 2000 ''jenkins'' ''prod'')
     (PanicString ''connection refused'')
   \<and> aborts fresh_T (RoleBindingExists fresh_T unreachable_clientset 2000 ''jenkins'' ''prod'')
     (PanicString ''connection refused'')
   \<and> aborts fresh_T (ClusterRoleExists fresh_T unreachable_clientset 2000 ''jenkins'')
     (PanicString ''connection refused'')
   \<and> aborts fresh_T (ClusterRoleBindingExists fresh_T unreachable_clientset 2000 ''jenkins'')
     (PanicString ''connection refused'')"
  using fetch_error_aborts_without_report
    [of unreachable_clientset "''prod''" "GoError ''connection refused''" fresh_T 3 "''jenkins''" 2000]
  by (simp add: unreachable_clientset_def)

subsection \<open>One record per call\<close>

text \<open>
  C2, as stated, fails: a call whose fetch fails panics and adds no record at all. Here the
  deployment count check runs against a client that cannot reach the cluster.
\<close>

theorem one_record_per_call_counterexample:
  "fst (ExpectedDeploymentCount fresh_T unreachable_clientset ''prod'' 3)
     = Panic (PanicString ''connection refused'')
   \<and> length (emitted fresh_T
        (snd (ExpectedDeploymentCount fresh_T unreachable_clientset ''prod'' 3))) \<noteq> 1"
  by (simp add: ExpectedDeploymentCount_def unreachable_clientset_def)

text \<open>
  C2, amended. Every call of each of the twelve check functions that returns adds exactly
  one record to the handle, a success or a failure and never both; a call that panics adds
  none.
\<close>

theorem one_record_when_returning:
  "one_record_iff_returns t (ExpectedDeploymentCount t clientset namespace expectedCount)
   \<and> one_record_iff_returns t (DeploymentExists t clientset name namespace)
   \<and> one_record_iff_returns t (AnnotationsEqual t annotations name expectedValue)
   \<and> one_record_iff_returns t (AnnotationsMatchPattern regexp t annotations name expectedPattern)
   \<and> one_record_iff_returns t (ConditionStatusMet t conditions conditionType expectedStatus)
   \<and> one_record_iff_returns t (ReplicaCountAsExpected t expectedReplicas actualReplicas description)
   \<and> one_record_iff_returns t (NamespaceExists t clientset name)
   \<and> one_record_iff_returns t (ServiceAccountExists t clientset now name namespace)
   \<and> one_record_iff_returns t (RoleExists t clientset now name namespace)
   \<and> one_record_iff_returns t (RoleBindingExists t clientset now name namespace)
   \<and> one_record_iff_returns t (ClusterRoleExists t clientset now name)
   \<and> one_record_iff_returns t (ClusterRoleBindingExists t clientset now name)"
  by (intro conjI; simp add: check_defs Let_def split: sum.split list.split)

text \<open>A returning call with its single record, and a panicking call with none.\<close>

theorem one_record_when_returning_witness:
  "fst (ExpectedDeploymentCount fresh_T sample_clientset ''prod'' 3) = Return
   \<and> length (emitted fresh_T (snd (ExpectedDeploymentCount fresh_T sample_clientset ''prod'' 3))) = 1
   \<and> fst (ConditionStatusMet fresh_T [] ''Available'' ''True'') = Panic (IndexOutOfRange 0 0)
   \<and> emitted fresh_T (snd (ConditionStatusMet fresh_T [] ''Available'' ''True'')) = []"
  using one_record_when_returning [where t = fresh_T and clientset = sample_clientset
      and namespace = "''prod''" and expectedCount = 3 and name = "''jenkins''"
      and annotations = "Map.empty" and expectedValue = "[]" and regexp = "go_regexp no_regexp"
      and expectedPattern = "[]" and conditions = "[]" and conditionType = "''Available''"
      and expectedStatus = "''True''" and expectedReplicas = 1 and actualReplicas = 1
      and description = "''replicas''" and now = 2000]
  by (simp add: one_record_iff_returns_def ExpectedDeploymentCount_def ConditionStatusMet_def
      sample_clientset_def)

subsection \<open>Condition status\<close>

text \<open>
  C3. When exactly one condition of the list has the requested type, the check reports
  success if and only if the status of that condition equals the expected status, and
  reports failure otherwise. When no condition has the requested type, the check panics
  on the index \<open>matches[0]\<close> and reports nothing.
\<close>

theorem condition_status_check:
  "(filter (\<lambda>c. Type c = conditionType) conditions = [c] \<longrightarrow>
      (reports_success t (ConditionStatusMet t conditions conditionType expectedStatus)
         \<longleftrightarrow> Status c = expectedStatus)
      \<and> (reports_failure t (ConditionStatusMet t conditions conditionType expectedStatus)
         \<longleftrightarrow> Status c \<noteq> expectedStatus))
   \<and> (filter (\<lambda>c. Type c = conditionType) conditions = [] \<longrightarrow>
      aborts t (ConditionStatusMet t conditions conditionType expectedStatus)
        (IndexOutOfRange 0 0))"
  by (simp add: ConditionStatusMet_def range_conditions_filter Let_def)

text \<open>
  A deployment with one \<open>Available\<close> condition of status \<open>False\<close> and no
  \<open>ReplicaFailure\<close> condition.
\<close>

theorem condition_status_check_witness:
  "filter (\<lambda>c. Type c = ''Available'') (Conditions (sample_deployment ''jenkins''))
     = [\<lparr>Type = ''Available'', Status = ''False''\<rparr>]
   \<and> reports_success fresh_T
        (ConditionStatusMet fresh_T (Conditions (sample_deployment ''jenkins'')) ''Available'' ''False'')
   \<and> filter (\<lambda>c. Type c = ''ReplicaFailure'') (Conditions (sample_deployment ''jenkins'')) = []
   \<and> aborts fresh_T
        (ConditionStatusMet fresh_T (Conditions (sample_deployment ''jenkins'')) ''ReplicaFailure'' ''False'')
        (IndexOutOfRange 0 0)"
  using condition_status_check [of "''Available''" "Conditions (sample_deployment ''jenkins'')"
      "\<lparr>Type = ''Available'', Status = ''False''\<rparr>" fresh_T "''False''"]
    condition_status_check [of "''ReplicaFailure''" "Conditions (sample_deployment ''jenkins'')"
      _ fresh_T "''False''"]
  by (simp add: sample_deployment_def)

subsection \<open>Annotations\<close>

text \<open>
  C4. Whatever the regular-expression package: when the pattern compiles, the check
  reports success if and only if the compiled pattern matches the value of the annotation
  (the empty string when the key is absent), and reports failure otherwise; when the
  pattern does not compile, the check panics with the text of the error and reports
  nothing.
\<close>

theorem annotation_pattern_check:
  "(Compile regexp expectedPattern = Inr pattern \<longrightarrow>
      (reports_success t (AnnotationsMatchPattern regexp t annotations name expectedPattern)
         \<longleftrightarrow> MatchString regexp pattern (case annotations name of None \<Rightarrow> [] | Some v \<Rightarrow> v))
      \<and> (reports_failure t (AnnotationsMatchPattern regexp t annotations name expectedPattern)
         \<longleftrightarrow> \<not> MatchString regexp pattern (case annotations name of None \<Rightarrow> [] | Some v \<Rightarrow> v)))
   \<and> (Compile regexp expectedPattern = Inl err \<longrightarrow>
      aborts t (AnnotationsMatchPattern regexp t annotations name expectedPattern)
        (PanicString (Error err)))"
  by (simp add: AnnotationsMatchPattern_def map_index_def Let_def)

text \<open>
  The pattern \<open>v1\<close> against a present and an absent key, and the pattern \<open>(\<close>, which the
  package of the example rejects.
\<close>

theorem annotation_pattern_check_witness:
  "Compile (go_regexp no_regexp) ''v1'' = Inr (Literal ''v1'')
   \<and> reports_success fresh_T
        (AnnotationsMatchPattern (go_regexp no_regexp) fresh_T [''version'' \<mapsto> ''app-v1.2'']
           ''version'' ''v1'')
   \<and> reports_failure fresh_T
        (AnnotationsMatchPattern (go_regexp no_regexp) fresh_T [''version'' \<mapsto> ''app-v1.2'']
           ''owner'' ''v1'')
   \<and> Compile (go_regexp no_regexp) ''('' = Inl (GoError ''error parsing regexp: ('')
   \<and> aborts fresh_T
        (AnnotationsMatchPattern (go_regexp no_regexp) fresh_T [''version'' \<mapsto> ''app-v1.2'']
           ''version'' ''('')
        (PanicString ''error parsing regexp: ('')"
  using annotation_pattern_check [of "go_regexp no_regexp" "''v1''" "Literal ''v1''" fresh_T
      "[''version'' \<mapsto> ''app-v1.2'']" "''version''"]
    annotation_pattern_check [of "go_regexp no_regexp" "''v1''" "Literal ''v1''" fresh_T
      "[''version'' \<mapsto> ''app-v1.2'']" "''owner''"]
    annotation_pattern_check [of "go_regexp no_regexp" "''(''" _ fresh_T
      "[''version'' \<mapsto> ''app-v1.2'']" "''version''" "GoError ''error parsing regexp: (''"]
  by (simp add: go_regexp_def no_regexp_def is_plain_def meta_characters_def sublist_code)

text \<open>
  C5. When the key is present with value \<open>v\<close>, the equality check reports success if and
  only if the expected value equals \<open>v\<close>; otherwise it reports a failure whose message
  contains \<open>Expected\<close>, the expected value, \<open>got\<close> and \<open>v\<close>. When the key is absent the
  check does what it does on the same map with the key bound to the empty string. It
  never panics.
\<close>

theorem annotation_equality_check:
  "(annotations name = Some v \<longrightarrow>
      (reports_success t (AnnotationsEqual t annotations name expectedValue)
         \<longleftrightarrow> expectedValue = v)
      \<and> (expectedValue \<noteq> v \<longrightarrow>
           reports_failure t (AnnotationsEqual t annotations name expectedValue)
           \<and> report_contains t (AnnotationsEqual t annotations name expectedValue)
                (''Expected '' @ expectedValue @ '', got '' @ v)))
   \<and> (annotations name = None \<longrightarrow>
        AnnotationsEqual t annotations name expectedValue
          = AnnotationsEqual t (annotations(name \<mapsto> [])) name expectedValue)
   \<and> fst (AnnotationsEqual t annotations name expectedValue) = Return"
proof (intro conjI impI)
  assume present: "annotations name = Some v"
  then show "reports_success t (AnnotationsEqual t annotations name expectedValue)
      \<longleftrightarrow> expectedValue = v"
    by (simp add: AnnotationsEqual_def map_index_def)
  assume differ: "expectedValue \<noteq> v"
  with present show "reports_failure t (AnnotationsEqual t annotations name expectedValue)"
    by (simp add: AnnotationsEqual_def map_index_def)
  have "sublist (''Expected '' @ expectedValue @ '', got '' @ v)
     (''Annotation '' @ name @ '' does not exist with its expected value.  Expected ''
        @ expectedValue @ '', got '' @ v @ ''.'')"
    by (rule sublist_between
        [where ps = "''Annotation '' @ name @ '' does not exist with its expected value.  ''"
           and ss = "''.''"]) simp
  with present differ
  show "report_contains t (AnnotationsEqual t annotations name expectedValue)
      (''Expected '' @ expectedValue @ '', got '' @ v)"
    by (simp add: AnnotationsEqual_def map_index_def)
next
  assume "annotations name = None"
  then show "AnnotationsEqual t annotations name expectedValue
      = AnnotationsEqual t (annotations(name \<mapsto> [])) name expectedValue"
    by (simp add: AnnotationsEqual_def map_index_def)
next
  show "fst (AnnotationsEqual t annotations name expectedValue) = Return"
    by (simp add: AnnotationsEqual_def Let_def)
qed

text \<open>A map with the key \<open>owner\<close> and without the key \<open>team\<close>.\<close>

theorem annotation_equality_check_witness:
  "[''owner'' \<mapsto> ''ops''] ''owner'' = Some ''ops''
   \<and> reports_success fresh_T (AnnotationsEqual fresh_T [''owner'' \<mapsto> ''ops''] ''owner'' ''ops'')
   \<and> reports_failure fresh_T (AnnotationsEqual fresh_T [''owner'' \<mapsto> ''ops''] ''owner'' ''dev'')
   \<and> report_contains fresh_T (AnnotationsEqual fresh_T [''owner'' \<mapsto> ''ops''] ''owner'' ''dev'')
        ''Expected dev, got ops''
   \<and> [''owner'' \<mapsto> ''ops''] ''team'' = None
   \<and> AnnotationsEqual fresh_T [''owner'' \<mapsto> ''ops''] ''team'' ''dev''
        = AnnotationsEqual fresh_T [''owner'' \<mapsto> ''ops'', ''team'' \<mapsto> []] ''team'' ''dev''"
  using annotation_equality_check [of "[''owner'' \<mapsto> ''ops'']" "''owner''" "''ops''" fresh_T "''ops''"]
    annotation_equality_check [of "[''owner'' \<mapsto> ''ops'']" "''owner''" "''ops''" fresh_T "''dev''"]
    annotation_equality_check [of "[''owner'' \<mapsto> ''ops'']" "''team''" _ fresh_T "''dev''"]
  by simp

subsection \<open>Counts\<close>

text \<open>
  C6. The deployment count check, on a successful listing, compares the expected count
  with the number of listed deployments, and the replica count check compares its two
  arguments: each reports success when they are equal and failure when they differ, and in
  both cases the message contains \<open>Expected e, got a\<close> with the two numbers in decimal.
\<close>

theorem count_checks:
  "(Deployments_List clientset namespace = Inr deployments \<longrightarrow>
      (expectedCount = int (length (Items deployments)) \<longrightarrow>
         reports_success t (ExpectedDeploymentCount t clientset namespace expectedCount))
      \<and> (expectedCount \<noteq> int (length (Items deployments)) \<longrightarrow>
         reports_failure t (ExpectedDeploymentCount t clientset namespace expectedCount))
      \<and> report_contains t (ExpectedDeploymentCount t clientset namespace expectedCount)
           (''Expected '' @ fmt_int expectedCount @ '', got ''
            @ fmt_int (int (length (Items deployments)))))
   \<and> (expectedReplicas = actualReplicas \<longrightarrow>
         reports_success t (ReplicaCountAsExpected t expectedReplicas actualReplicas description))
   \<and> (expectedReplicas \<noteq> actualReplicas \<longrightarrow>
         reports_failure t (ReplicaCountAsExpected t expectedReplicas actualReplicas description))
   \<and> report_contains t (ReplicaCountAsExpected t expectedReplicas actualReplicas description)
        (''Expected '' @ fmt_int (sint expectedReplicas) @ '', got ''
         @ fmt_int (sint actualReplicas))"
proof (intro conjI impI)
  assume fetched: "Deployments_List clientset namespace = Inr deployments"
  {
    assume "expectedCount = int (length (Items deployments))"
    with fetched
    show "reports_success t (ExpectedDeploymentCount t clientset namespace expectedCount)"
      by (simp add: ExpectedDeploymentCount_def Let_def)
  next
    assume "expectedCount \<noteq> int (length (Items deployments))"
    with fetched
    show "reports_failure t (ExpectedDeploymentCount t clientset namespace expectedCount)"
      by (simp add: ExpectedDeploymentCount_def Let_def)
  }
  from fetched
  show "report_contains t (ExpectedDeploymentCount t clientset namespace expectedCount)
      (''Expected '' @ fmt_int expectedCount @ '', got ''
       @ fmt_int (int (length (Items deployments))))"
    unfolding ExpectedDeploymentCount_def Let_def
    by (simp only: sum.case report_contains_simps count_message_contains simp_thms
        split: if_split)
next
  assume "expectedReplicas = actualReplicas"
  then show "reports_success t
      (ReplicaCountAsExpected t expectedReplicas actualReplicas description)"
    by (simp add: ReplicaCountAsExpected_def)
next
  assume "expectedReplicas \<noteq> actualReplicas"
  then show "reports_failure t
      (ReplicaCountAsExpected t expectedReplicas actualReplicas description)"
    by (simp add: ReplicaCountAsExpected_def)
next
  show "report_contains t (ReplicaCountAsExpected t expectedReplicas actualReplicas description)
      (''Expected '' @ fmt_int (sint expectedReplicas) @ '', got ''
       @ fmt_int (sint actualReplicas))"
    unfolding ReplicaCountAsExpected_def fmt_int32_def
    by (simp only: report_contains_simps replica_message_contains simp_thms split: if_split)
qed

text \<open>
  The scenario of the spec: three deployments in \<open>prod\<close>; expecting 3 succeeds,
  expecting 4 fails with a message that contains \<open>Expected 4, got 3\<close>.
\<close>

theorem count_checks_witness:
  "Deployments_List sample_clientset ''prod''
     = Inr \<lparr>Items = [sample_deployment ''jenkins'', sample_deployment ''web'',
                       sample_deployment ''db'']\<rparr>
   \<and> reports_success fresh_T (ExpectedDeploymentCount fresh_T sample_clientset ''prod'' 3)
   \<and> reports_failure fresh_T (ExpectedDeploymentCount fresh_T sample_clientset ''prod'' 4)
   \<and> report_contains fresh_T (ExpectedDeploymentCount fresh_T sample_clientset ''prod'' 4)
        ''Expected 4, got 3''
   \<and> reports_failure fresh_T (ReplicaCountAsExpected fresh_T 2 (- 1) ''replicas'')
   \<and> report_contains fresh_T (ReplicaCountAsExpected fresh_T 2 (- 1) ''replicas'')
        ''Expected 2, got -1''"
  using count_checks [of sample_clientset "''prod''"
      "\<lparr>Items = [sample_deployment ''jenkins'', sample_deployment ''web'',
                  sample_deployment ''db'']\<rparr>" 3 fresh_T 2 2 "''replicas''"]
    count_checks [of sample_clientset "''prod''"
      "\<lparr>Items = [sample_deployment ''jenkins'', sample_deployment ''web'',
                  sample_deployment ''db'']\<rparr>" 4 fresh_T 2 "- 1" "''replicas''"]
  by (simp add: sample_clientset_def fmt_int_def fmt_nat.simps Let_def)

subsection \<open>What the messages say\<close>

text \<open>
  C7, as stated, fails: the namespace check names the namespace only. For a namespace in
  phase \<open>Terminating\<close> it reports a failure whose message contains neither the expected
  phase \<open>Active\<close> nor the observed phase.
\<close>

theorem message_contents_counterexample:
  "Namespaces_Get sample_clientset ''old''
     = Inr \<lparr>Name = ''old'', CreationTimestamp = 1000,
             Namespace_Status = \<lparr>Phase = ''Terminating''\<rparr>\<rparr>
   \<and> reports_failure fresh_T (NamespaceExists fresh_T sample_clientset ''old'')
   \<and> \<not> report_contains fresh_T (NamespaceExists fresh_T sample_clientset ''old'') ''Active''
   \<and> \<not> report_contains fresh_T (NamespaceExists fresh_T sample_clientset ''old'') ''Terminating''"
  by (simp add: NamespaceExists_def sample_clientset_def sublist_code)

text \<open>
  C7, amended. Every message names what is checked: the kind of object, and the name,
  key, type or label the check was called with. The six comparing checks (deployment
  count, deployment name, annotation equality, annotation pattern, condition status,
  replica count) end their message with \<open>Expected e, got a.\<close>, the expected and the
  observed value. The namespace check and the five creation-timestamp checks emit one of two
  fixed sentences built from the name (and the namespace) alone.
\<close>

theorem message_contents:
  "(Deployments_List clientset namespace = Inr deployments \<longrightarrow>
      report_contains t (ExpectedDeploymentCount t clientset namespace expectedCount)
        (''expected number of Deployments exist in the '' @ apostrophe @ namespace @ apostrophe
         @ '' namespace.  Expected '' @ fmt_int expectedCount @ '', got ''
         @ fmt_int (int (length (Items deployments))) @ ''.''))
   \<and> (Deployments_Get clientset namespace name = Inr deployment \<longrightarrow>
      report_contains t (DeploymentExists t clientset name namespace) ''Jenkins Deployment ''
      \<and> report_contains t (DeploymentExists t clientset name namespace)
        (''with the expected name.  Expected '' @ name @ '', got '' @ Name deployment @ ''.''))
   \<and> report_contains t (AnnotationsEqual t annotations name expectedValue)
        (''Annotation '' @ name @ '' '')
   \<and> report_contains t (AnnotationsEqual t annotations name expectedValue)
        (''with its expected value.  Expected '' @ expectedValue @ '', got ''
         @ map_index annotations name @ ''.'')
   \<and> (Compile regexp expectedPattern = Inr pattern \<longrightarrow>
      report_contains t (AnnotationsMatchPattern regexp t annotations name expectedPattern)
        (''Annotation '' @ name @ '' '')
      \<and> report_contains t (AnnotationsMatchPattern regexp t annotations name expectedPattern)
        (''its expected pattern.  Expected '' @ expectedPattern @ '', got ''
         @ map_index annotations name @ ''.''))
   \<and> (filter (\<lambda>c. Type c = conditionType) conditions = first # others \<longrightarrow>
      report_contains t (ConditionStatusMet t conditions conditionType expectedStatus)
        (''Deployment condition type '' @ conditionType @ '' '')
      \<and> report_contains t (ConditionStatusMet t conditions conditionType expectedStatus)
        (''its expected status.  Expected '' @ expectedStatus @ '', got ''
         @ Status first @ ''.''))
   \<and> report_contains t (ReplicaCountAsExpected t expectedReplicas actualReplicas description)
        ''Jenkins Deployment has ''
   \<and> report_contains t (ReplicaCountAsExpected t expectedReplicas actualReplicas description)
        (''expected '' @ description @ ''.  Expected '' @ fmt_int32 expectedReplicas
         @ '', got '' @ fmt_int32 actualReplicas @ ''.'')
   \<and> (Namespaces_Get clientset name = Inr ns \<longrightarrow>
      emitted t (snd (NamespaceExists t clientset name))
        = [Logf (''Cluster has a namespace named '' @ name @ ''.'')]
      \<or> emitted t (snd (NamespaceExists t clientset name))
        = [Errorf (''Cluster does not have a namespace named '' @ name @ ''.'')])
   \<and> (ServiceAccounts_Get clientset namespace name = Inr object \<longrightarrow>
      emitted t (snd (ServiceAccountExists t clientset now name namespace))
        = [Logf (''A ServiceAccount named '' @ apostrophe @ name @ apostrophe
                 @ '' exists in the '' @ apostrophe @ namespace @ apostrophe @ '' namespace.'')]
      \<or> emitted t (snd (ServiceAccountExists t clientset now name namespace))
        = [Errorf (''A ServiceAccount named '' @ apostrophe @ name @ apostrophe
                 @ '' does not exist in the '' @ apostrophe @ namespace @ apostrophe
                 @ '' namespace.'')])
   \<and> (Roles_Get clientset namespace name = Inr object \<longrightarrow>
      emitted t (snd (RoleExists t clientset now name namespace))
        = [Logf (''A Role named '' @ apostrophe @ name @ apostrophe
                 @ '' exists in the '' @ apostrophe @ namespace @ apostrophe @ '' namespace.'')]
      \<or> emitted t (snd (RoleExists t clientset now name namespace))
        = [Errorf (''A Role named '' @ apostrophe @ name @ apostrophe
                 @ '' does not exist in the '' @ apostrophe @ namespace @ apostrophe
                 @ '' namespace.'')])
   \<and> (RoleBindings_Get clientset namespace name = Inr object \<longrightarrow>
      emitted t (snd (RoleBindingExists t clientset now name namespace))
        = [Logf (''A RoleBinding object named '' @ apostrophe @ name @ apostrophe
                 @ '' exists in the '' @ apostrophe @ namespace @ apostrophe @ '' namespace.'')]
      \<or> emitted t (snd (RoleBindingExists t clientset now name namespace))
        = [Errorf (''A RoleBinding object named '' @ apostrophe @ name @ apostrophe
                 @ '' does not exist in the '' @ apostrophe @ namespace @ apostrophe
                 @ '' namespace.'')])
   \<and> (ClusterRoles_Get clientset name = Inr object \<longrightarrow>
      emitted t (snd (ClusterRoleExists t clientset now name))
        = [Logf (''A ClusterRole named '' @ apostrophe @ name @ apostrophe @ '' exists.'')]
      \<or> emitted t (snd (ClusterRoleExists t clientset now name))
        = [Errorf (''A ClusterRole named '' @ apostrophe @ name @ apostrophe
                 @ '' does not exist.'')])
   \<and> (ClusterRoleBindings_Get clientset name = Inr object \<longrightarrow>
      emitted t (snd (ClusterRoleBindingExists t clientset now name))
        = [Logf (''A ClusterRoleBinding object named '' @ apostrophe @ name @ apostrophe
                 @ '' exists.'')]
      \<or> emitted t (snd (ClusterRoleBindingExists t clientset now name))
        = [Errorf (''A ClusterRoleBinding object named '' @ apostrophe @ name @ apostrophe
                 @ '' does not exist.'')])"
  by (intro conjI impI;
      simp add: check_defs Let_def sublist_code sublist_past range_conditions_filter
        fmt_int32_def)

text \<open>Messages of four of the checks on the sample cluster.\<close>

theorem message_contents_witness:
  "Deployments_Get sample_clientset ''prod'' ''jenkins'' = Inr (sample_deployment ''jenkins'')
   \<and> report_contains fresh_T (DeploymentExists fresh_T sample_clientset ''jenkins'' ''prod'')
        ''with the expected name.  Expected jenkins, got jenkins.''
   \<and> report_contains fresh_T
        (ConditionStatusMet fresh_T (Conditions (sample_deployment ''jenkins'')) ''Available'' ''True'')
        ''its expected status.  Expected True, got False.''
   \<and> report_contains fresh_T (AnnotationsEqual fresh_T [''owner'' \<mapsto> ''ops''] ''jenkins'' ''dev'')
        ''with its expected value.  Expected dev, got .''
   \<and> emitted fresh_T (snd (NamespaceExists fresh_T sample_clientset ''jenkins''))
        = [Errorf ''Cluster does not have a namespace named jenkins.'']
   \<and> emitted fresh_T (snd (ClusterRoleExists fresh_T sample_clientset 2000 ''jenkins''))
        = [Logf (''A ClusterRole named '' @ apostrophe @ ''jenkins'' @ apostrophe @ '' exists.'')]"
  using message_contents [where clientset = sample_clientset and namespace = "''prod''"
      and deployments = "\<lparr>Items = [sample_deployment ''jenkins'', sample_deployment ''web'',
                                       sample_deployment ''db'']\<rparr>"
      and t = fresh_T and expectedCount = 3 and name = "''jenkins''"
      and deployment = "sample_deployment ''jenkins''"
      and annotations = "[''owner'' \<mapsto> ''ops'']" and expectedValue = "''dev''"
      and regexp = "go_regexp no_regexp" and expectedPattern = "[]" and pattern = "Literal []"
      and conditionType = "''Available''"
      and conditions = "Conditions (sample_deployment ''jenkins'')"
      and first = "\<lparr>Type = ''Available'', Status = ''False''\<rparr>" and others = "[]"
      and expectedStatus = "''True''" and expectedReplicas = 1 and actualReplicas = 1
      and description = "''replicas''"
      and ns = "\<lparr>Name = ''jenkins'', CreationTimestamp = 1000,
                  Namespace_Status = \<lparr>Phase = ''Terminating''\<rparr>\<rparr>"
      and object = "\<lparr>Name = ''jenkins'', CreationTimestamp = 1000\<rparr>" and now = 2000]
  by (simp add: sample_clientset_def sample_deployment_def map_index_def NamespaceExists_def
      ClusterRoleExists_def Before_def)

subsection \<open>Existence checks\<close>

text \<open>
  C8. On a successful fetch the namespace check reports success if and only if the phase
  of the namespace is \<open>Active\<close>, and reports failure for any other phase.
\<close>

theorem namespace_phase_check:
  "Namespaces_Get clientset name = Inr namespace \<Longrightarrow>
     (reports_success t (NamespaceExists t clientset name)
        \<longleftrightarrow> Phase (Namespace_Status namespace) = ''Active'')
     \<and> (reports_failure t (NamespaceExists t clientset name)
        \<longleftrightarrow> Phase (Namespace_Status namespace) \<noteq> ''Active'')"
  by (simp add: NamespaceExists_def Let_def)

text \<open>The scenario of the spec: \<open>Terminating\<close> fails, \<open>Active\<close> succeeds.\<close>

theorem namespace_phase_check_witness:
  "Namespaces_Get sample_clientset ''old''
     = Inr \<lparr>Name = ''old'', CreationTimestamp = 1000,
             Namespace_Status = \<lparr>Phase = ''Terminating''\<rparr>\<rparr>
   \<and> reports_failure fresh_T (NamespaceExists fresh_T sample_clientset ''old'')
   \<and> Namespaces_Get sample_clientset ''prod''
     = Inr \<lparr>Name = ''prod'', CreationTimestamp = 1000,
             Namespace_Status = \<lparr>Phase = ''Active''\<rparr>\<rparr>
   \<and> reports_success fresh_T (NamespaceExists fresh_T sample_clientset ''prod'')"
proof -
  have old: "Namespaces_Get sample_clientset ''old''
     = Inr \<lparr>Name = ''old'', CreationTimestamp = 1000,
             Namespace_Status = \<lparr>Phase = ''Terminating''\<rparr>\<rparr>"
    by (simp add: sample_clientset_def)
  have prod: "Namespaces_Get sample_clientset ''prod''
     = Inr \<lparr>Name = ''prod'', CreationTimestamp = 1000,
             Namespace_Status = \<lparr>Phase = ''Active''\<rparr>\<rparr>"
    by (simp add: sample_clientset_def)
  show ?thesis
    using old prod namespace_phase_check [OF old, of fresh_T]
      namespace_phase_check [OF prod, of fresh_T]
    by simp
qed

text \<open>
  C9. On a successful fetch, each of the service account, role, role binding, cluster role
  and cluster role binding checks reports success if and only if the creation timestamp of
  the object is strictly before the reading of the clock, and reports failure otherwise.
\<close>

theorem timestamp_checks:
  "(ServiceAccounts_Get clientset namespace name = Inr object \<longrightarrow>
      (reports_success t (ServiceAccountExists t clientset now name namespace)
         \<longleftrightarrow> CreationTimestamp object < now)
      \<and> (reports_failure t (ServiceAccountExists t clientset now name namespace)
         \<longleftrightarrow> \<not> CreationTimestamp object < now))
   \<and> (Roles_Get clientset namespace name = Inr object \<longrightarrow>
      (reports_success t (RoleExists t clientset now name namespace)
         \<longleftrightarrow> CreationTimestamp object < now)
      \<and> (reports_failure t (RoleExists t clientset now name namespace)
         \<longleftrightarrow> \<not> CreationTimestamp object < now))
   \<and> (RoleBindings_Get clientset namespace name = Inr object \<longrightarrow>
      (reports_success t (RoleBindingExists t clientset now name namespace)
         \<longleftrightarrow> CreationTimestamp object < now)
      \<and> (reports_failure t (RoleBindingExists t clientset now name namespace)
         \<longleftrightarrow> \<not> CreationTimestamp object < now))
   \<and> (ClusterRoles_Get clientset name = Inr object \<longrightarrow>
      (reports_success t (ClusterRoleExists t clientset now name)
         \<longleftrightarrow> CreationTimestamp object < now)
      \<and> (reports_failure t (ClusterRoleExists t clientset now name)
         \<longleftrightarrow> \<not> CreationTimestamp object < now))
   \<and> (ClusterRoleBindings_Get clientset name = Inr object \<longrightarrow>
      (reports_success t (ClusterRoleBindingExists t clientset now name)
         \<longleftrightarrow> CreationTimestamp object < now)
      \<and> (reports_failure t (ClusterRoleBindingExists t clientset now name)
         \<longleftrightarrow> \<not> CreationTimestamp object < now))"
  by (intro conjI; simp add: ServiceAccountExists_def RoleExists_def RoleBindingExists_def
      ClusterRoleExists_def ClusterRoleBindingExists_def Before_def)

text \<open>
  Objects created at instant 1000: read at 2000 the checks succeed; read at 1000, the
  instant of creation itself, they fail.
\<close>

theorem timestamp_checks_witness:
  "ServiceAccounts_Get sample_clientset ''prod'' ''jenkins''
     = Inr \<lparr>Name = ''jenkins'', CreationTimestamp = 1000\<rparr>
   \<and> reports_success fresh_T (ServiceAccountExists fresh_T sample_clientset 2000 ''jenkins'' ''prod'')
   \<and> reports_success fresh_T (RoleExists fresh_T sample_clientset 2000 ''jenkins'' ''prod'')
   \<and> reports_success fresh_T (RoleBindingExists fresh_T sample_clientset 2000 ''jenkins'' ''prod'')
   \<and> reports_success fresh_T (ClusterRoleExists fresh_T sample_clientset 2000 ''jenkins'')
   \<and> reports_success fresh_T (ClusterRoleBindingExists fresh_T sample_clientset 2000 ''jenkins'')
   \<and> reports_failure fresh_T (ServiceAccountExists fresh_T sample_clientset 1000 ''jenkins'' ''prod'')
   \<and> reports_failure fresh_T (RoleExists fresh_T sample_clientset 1000 ''jenkins'' ''prod'')
   \<and> reports_failure fresh_T (RoleBindingExists fresh_T sample_clientset 1000 ''jenkins'' ''prod'')
   \<and> reports_failure fresh_T (ClusterRoleExists fresh_T sample_clientset 1000 ''jenkins'')
   \<and> reports_failure fresh_T (ClusterRoleBindingExists fresh_T sample_clientset 1000 ''jenkins'')"
  using timestamp_checks [of sample_clientset "''prod''" "''jenkins''"
      "\<lparr>Name = ''jenkins'', CreationTimestamp = 1000\<rparr>" fresh_T 2000]
    timestamp_checks [of sample_clientset "''prod''" "''jenkins''"
      "\<lparr>Name = ''jenkins'', CreationTimestamp = 1000\<rparr>" fresh_T 1000]
  by (simp add: sample_clientset_def)

subsection \<open>The empty pattern\<close>

text \<open>
  C10. The empty pattern compiles, it matches every value, and so the pattern check reports
  success for every annotations map and every key, present or absent.
\<close>

theorem empty_pattern_always_succeeds:
  "Compile (go_regexp rest) [] = Inr (Literal [])
   \<and> MatchString (go_regexp rest) (Literal []) (map_index annotations name)
   \<and> reports_success t (AnnotationsMatchPattern (go_regexp rest) t annotations name [])"
  by (simp add: AnnotationsMatchPattern_def go_regexp_def is_plain_def)

text \<open>A present key and an absent one.\<close>

theorem empty_pattern_always_succeeds_witness:
  "reports_success fresh_T
     (AnnotationsMatchPattern (go_regexp no_regexp) fresh_T [''owner'' \<mapsto> ''ops''] ''owner'' [])
   \<and> [''owner'' \<mapsto> ''ops''] ''team'' = None
   \<and> reports_success fresh_T
     (AnnotationsMatchPattern (go_regexp no_regexp) fresh_T [''owner'' \<mapsto> ''ops''] ''team'' [])"
  using empty_pattern_always_succeeds [of no_regexp "[''owner'' \<mapsto> ''ops'']" "''owner''" fresh_T]
    empty_pattern_always_succeeds [of no_regexp "[''owner'' \<mapsto> ''ops'']" "''team''" fresh_T]
  by simp

end
